theory Spec2Isabelle
  imports Main "HOL-Library.Word"
begin

unbundle bit_operations_syntax

section \<open>Package errors: the classified API error\<close>

text \<open>
  Go's \<^verbatim>\<open>interface{}\<close> values that occur in \<^verbatim>\<open>APIError.Details\<close>: a value decoded
  from the JSON error body (kept as its JSON text), an \<^verbatim>\<open>int64\<close>, or a
  \<^verbatim>\<open>map[string]interface{}\<close> written as its list of entries.
\<close>

datatype any = AnyJSON string | AnyInt64 int | AnyMap "(string \<times> any) list"

record APIError =
  StatusCode :: int
  Code :: int
  Message :: string
  Details :: "any list"

text \<open>
  A Go \<^verbatim>\<open>error\<close> value that is not nil: either an \<^verbatim>\<open>errors.APIError\<close> value (the only
  dynamic type the assertion \<^verbatim>\<open>err.(errors.APIError)\<close> accepts), or any other error,
  identified by its message (\<^verbatim>\<open>errors.New\<close>, \<^verbatim>\<open>fmt.Errorf\<close>, transport and context
  errors). The nil error is \<open>None\<close> of \<open>error option\<close>.
\<close>

datatype error = APIErr APIError | GenericError string

definition IsRateLimitError :: "APIError \<Rightarrow> bool" where
  "IsRateLimitError e \<longleftrightarrow> StatusCode e = 429 \<and> Code e = 49900007"

definition IsRetryable :: "APIError \<Rightarrow> bool" where
  "IsRetryable e =
     (if StatusCode e = 429 \<or> StatusCode e = 500 \<or> StatusCode e = 502
         \<or> StatusCode e = 503 \<or> StatusCode e = 504
      then True else False)"

section \<open>Package retry\<close>

text \<open>
  \<^verbatim>\<open>time.Duration\<close> is a 64-bit signed integer that counts nanoseconds, and so is
  \<^verbatim>\<open>int\<close> on a 64-bit platform. Values are HOL integers, and \<open>wrap64\<close> is written
  wherever the source's arithmetic can leave the 64-bit range.
\<close>

definition wrap64 :: "int \<Rightarrow> int" where
  "wrap64 x = (x + 2 ^ 63) mod 2 ^ 64 - 2 ^ 63"

definition is_int64 :: "int \<Rightarrow> bool" where
  "is_int64 x \<longleftrightarrow> - (2 ^ 63) \<le> x \<and> x < 2 ^ 63"

record RetryPolicy =
  MaxAttempts :: int
  BaseDelay :: int
  MaxDelay :: int

definition Second :: int where
  "Second = 1000000000"

definition NewRetryPolicy :: RetryPolicy where
  "NewRetryPolicy = \<lparr>MaxAttempts = 3, BaseDelay = 1 * Second, MaxDelay = 30 * Second\<rparr>"

fun ShouldRetry :: "RetryPolicy \<Rightarrow> error \<Rightarrow> int \<Rightarrow> bool" where
  "ShouldRetry p err attempt =
     (if attempt \<ge> MaxAttempts p then False
      else (case err of
              APIErr apiErr \<Rightarrow> IsRetryable apiErr
            | GenericError _ \<Rightarrow> True))"

text \<open>
  \<^verbatim>\<open>time.Duration(math.Pow(2, float64(k)))\<close> for a 64-bit integer \<open>k\<close>. For \<open>k < 0\<close> the
  power is a fraction below one and the conversion truncates it to 0; for
  \<open>0 \<le> k \<le> 62\<close> the power is exactly representable both as a float64 and as an int64.
  From \<open>k = 63\<close> on the float (\<open>2^k\<close> or \<open>+Inf\<close>) is outside the int64 range, where Go
  leaves the conversion implementation-defined: the parameter \<open>oor\<close> gives the value
  the platform produces there.
\<close>

definition Pow2Duration :: "(int \<Rightarrow> int) \<Rightarrow> int \<Rightarrow> int" where
  "Pow2Duration oor k =
     (if k < 0 then 0 else if k \<le> 62 then 2 ^ nat k else oor k)"

definition CalculateDelay :: "(int \<Rightarrow> int) \<Rightarrow> RetryPolicy \<Rightarrow> int \<Rightarrow> int" where
  "CalculateDelay oor p attempt =
     (let delay = wrap64 (Pow2Duration oor (wrap64 (attempt - 1)) * BaseDelay p)
      in if delay > MaxDelay p then MaxDelay p else delay)"

text \<open>
  \<^verbatim>\<open>Execute\<close> runs in a world \<open>'w\<close>. The caller's \<open>operation\<close> is a closure: it
  returns nil (\<open>None\<close>) or an error and changes the world. The \<^verbatim>\<open>select\<close> between
  \<^verbatim>\<open>ctx.Done()\<close> and \<^verbatim>\<open>time.After(delay)\<close> is the function \<open>ctx\<close>: given the delay it
  returns \<open>Some (ctx.Err())\<close> when the cancellation case is taken and \<open>None\<close> when the
  timer case is taken. The loop additionally records, in \<open>trace\<close>, what each invocation
  of the operation returned, in order; \<open>trace\<close> is not program state.

  The increment \<^verbatim>\<open>attempt++\<close> is reached only after \<open>ShouldRetry\<close> returned true, hence
  with \<open>attempt < MaxAttempts\<close>, so it cannot overflow.
\<close>

function Execute_loop ::
  "(int \<Rightarrow> int) \<Rightarrow> RetryPolicy \<Rightarrow> (int \<Rightarrow> 'w \<Rightarrow> error option \<times> 'w) \<Rightarrow>
   ('w \<Rightarrow> error option \<times> 'w) \<Rightarrow> int \<Rightarrow> error option \<Rightarrow> error option list \<Rightarrow> 'w \<Rightarrow>
   error option \<times> error option list \<times> 'w" where
  "Execute_loop oor p ctx operation attempt lastErr trace w =
     (if attempt \<le> MaxAttempts p then
        (case operation w of
           (None, w1) \<Rightarrow> (None, trace @ [None], w1)
         | (Some err, w1) \<Rightarrow>
             if \<not> ShouldRetry p err attempt then (Some err, trace @ [Some err], w1)
             else
               (case ctx (CalculateDelay oor p (attempt + 1)) w1 of
                  (Some ctxErr, w2) \<Rightarrow> (Some ctxErr, trace @ [Some err], w2)
                | (None, w2) \<Rightarrow>
                    Execute_loop oor p ctx operation (attempt + 1) (Some err)
                      (trace @ [Some err]) w2))
      else (lastErr, trace, w))"
  by pat_completeness auto
termination
  by (relation "measure (\<lambda>(oor, p, ctx, operation, attempt, lastErr, trace, w).
        nat (MaxAttempts p + 1 - attempt))") (auto split: if_splits)

definition Execute ::
  "(int \<Rightarrow> int) \<Rightarrow> RetryPolicy \<Rightarrow> (int \<Rightarrow> 'w \<Rightarrow> error option \<times> 'w) \<Rightarrow>
   ('w \<Rightarrow> error option \<times> 'w) \<Rightarrow> 'w \<Rightarrow> error option \<times> error option list \<times> 'w" where
  "Execute oor p ctx operation w = Execute_loop oor p ctx operation 0 None [] w"

section \<open>Formatting verbs of package fmt\<close>

text \<open>
  Go strings are byte sequences, and so are HOL strings. \<open>%s\<close> with a string argument
  copies it, so \<^verbatim>\<open>fmt.Sprintf\<close> with \<open>%s\<close> verbs is concatenation.
\<close>

definition hexdigits :: string where
  "hexdigits = ''0123456789abcdef''"

text \<open>\<open>%x\<close> on a byte slice: two lowercase hexadecimal digits for each byte.\<close>

definition hex_byte :: "char \<Rightarrow> string" where
  "hex_byte c = [hexdigits ! ((of_char c :: nat) div 16), hexdigits ! ((of_char c :: nat) mod 16)]"

definition fmt_x_bytes :: "string \<Rightarrow> string" where
  "fmt_x_bytes b = concat (map hex_byte b)"

text \<open>\<open>%x\<close> and \<open>%d\<close> on a natural number: its digits, at least one.\<close>

fun hex_nat :: "nat \<Rightarrow> string" where
  "hex_nat n = (if n < 16 then [hexdigits ! n] else hex_nat (n div 16) @ [hexdigits ! (n mod 16)])"

fun dec_nat :: "nat \<Rightarrow> string" where
  "dec_nat n = (if n < 10 then [hexdigits ! n] else dec_nat (n div 10) @ [hexdigits ! (n mod 10)])"

definition pad0 :: "nat \<Rightarrow> string \<Rightarrow> string" where
  "pad0 width s = replicate (width - length s) (CHR ''0'') @ s"

text \<open>
  \<open>%08x\<close> on an \<^verbatim>\<open>int\<close>: the digits are padded with zeros to width 8; for a negative
  number the sign takes one of the 8 places.
\<close>

definition fmt_08x :: "int \<Rightarrow> string" where
  "fmt_08x n = (if n < 0 then CHR ''-'' # pad0 7 (hex_nat (nat (- n))) else pad0 8 (hex_nat (nat n)))"

definition fmt_d :: "int \<Rightarrow> string" where
  "fmt_d n = (if n < 0 then CHR ''-'' # dec_nat (nat (- n)) else dec_nat (nat n))"

text \<open>The method \<^verbatim>\<open>Error()\<close> of an error value.\<close>

fun Error :: "error \<Rightarrow> string" where
  "Error (APIErr e) =
     ''TiDB Cloud API error ('' @ fmt_d (StatusCode e) @ ''): '' @ Message e
       @ '' (code: '' @ fmt_d (Code e) @ '')''"
| "Error (GenericError msg) = msg"

section \<open>Package crypto/md5\<close>

text \<open>
  The MD5 digest of RFC 1321, on 32-bit words: the per-round shift amounts, the table
  of sines, the padding to a multiple of 64 bytes with the length in bits, and the
  four little-endian state words as the 16 bytes of the sum.
\<close>

definition md5_shifts :: "nat list" where
  "md5_shifts =
     [7, 12, 17, 22, 7, 12, 17, 22, 7, 12, 17, 22, 7, 12, 17, 22,
      5, 9, 14, 20, 5, 9, 14, 20, 5, 9, 14, 20, 5, 9, 14, 20,
      4, 11, 16, 23, 4, 11, 16, 23, 4, 11, 16, 23, 4, 11, 16, 23,
      6, 10, 15, 21, 6, 10, 15, 21, 6, 10, 15, 21, 6, 10, 15, 21]"

definition md5_table :: "32 word list" where
  "md5_table =
     [0xd76aa478, 0xe8c7b756, 0x242070db, 0xc1bdceee, 0xf57c0faf, 0x4787c62a, 0xa8304613, 0xfd469501,
      0x698098d8, 0x8b44f7af, 0xffff5bb1, 0x895cd7be, 0x6b901122, 0xfd987193, 0xa679438e, 0x49b40821,
      0xf61e2562, 0xc040b340, 0x265e5a51, 0xe9b6c7aa, 0xd62f105d, 0x02441453, 0xd8a1e681, 0xe7d3fbc8,
      0x21e1cde6, 0xc33707d6, 0xf4d50d87, 0x455a14ed, 0xa9e3e905, 0xfcefa3f8, 0x676f02d9, 0x8d2a4c8a,
      0xfffa3942, 0x8771f681, 0x6d9d6122, 0xfde5380c, 0xa4beea44, 0x4bdecfa9, 0xf6bb4b60, 0xbebfbc70,
      0x289b7ec6, 0xeaa127fa, 0xd4ef3085, 0x04881d05, 0xd9d4d039, 0xe6db99e5, 0x1fa27cf8, 0xc4ac5665,
      0xf4292244, 0x432aff97, 0xab9423a7, 0xfc93a039, 0x655b59c3, 0x8f0ccc92, 0xffeff47d, 0x85845dd1,
      0x6fa87e4f, 0xfe2ce6e0, 0xa3014314, 0x4e0811a1, 0xf7537e82, 0xbd3af235, 0x2ad7d2bb, 0xeb86d391]"

definition le_word :: "string \<Rightarrow> 32 word" where
  "le_word bs = foldr (\<lambda>c w. push_bit 8 w + of_nat (of_char c)) bs 0"

definition le_bytes :: "nat \<Rightarrow> 'a::len word \<Rightarrow> string" where
  "le_bytes k w = map (\<lambda>i. char_of (uint (drop_bit (8 * i) w))) [0..<k]"

fun chunks :: "nat \<Rightarrow> nat \<Rightarrow> 'a list \<Rightarrow> 'a list list" where
  "chunks 0 n xs = []"
| "chunks (Suc k) n xs = take n xs # chunks k n (drop n xs)"

definition md5_pad :: "string \<Rightarrow> string" where
  "md5_pad msg =
     msg @ [char_of (128 :: nat)]
       @ replicate ((119 - length msg mod 64) mod 64) (char_of (0 :: nat))
       @ le_bytes 8 (of_nat (8 * length msg) :: 64 word)"

definition md5_step ::
  "32 word list \<Rightarrow> 32 word \<times> 32 word \<times> 32 word \<times> 32 word \<Rightarrow> nat \<Rightarrow>
   32 word \<times> 32 word \<times> 32 word \<times> 32 word" where
  "md5_step m st i =
     (case st of (a, b, c, d) \<Rightarrow>
        (let f = (if i < 16 then (b AND c) OR (NOT b AND d)
                  else if i < 32 then (d AND b) OR (NOT d AND c)
                  else if i < 48 then b XOR c XOR d
                  else c XOR (b OR NOT d));
             g = (if i < 16 then i
                  else if i < 32 then (5 * i + 1) mod 16
                  else if i < 48 then (3 * i + 5) mod 16
                  else (7 * i) mod 16);
             f' = f + a + md5_table ! i + m ! g
         in (d, b + word_rotl (md5_shifts ! i) f', b, c)))"

definition md5_block ::
  "32 word \<times> 32 word \<times> 32 word \<times> 32 word \<Rightarrow> string \<Rightarrow>
   32 word \<times> 32 word \<times> 32 word \<times> 32 word" where
  "md5_block h block =
     (let m = map le_word (chunks 16 4 block)
      in case (h, foldl (md5_step m) h [0..<64]) of
           ((a0, b0, c0, d0), (a, b, c, d)) \<Rightarrow> (a0 + a, b0 + b, c0 + c, d0 + d))"

text \<open>\<^verbatim>\<open>h := md5.New(); h.Write(msg); h.Sum(nil)\<close>.\<close>

definition md5_sum :: "string \<Rightarrow> string" where
  "md5_sum msg =
     (let p = md5_pad msg
      in case foldl md5_block (0x67452301, 0xefcdab89, 0x98badcfe, 0x10325476)
                (chunks (length p div 64) 64 p) of
           (a, b, c, d) \<Rightarrow> concat (map (le_bytes 4) [a, b, c, d]))"

section \<open>Package auth: digest authentication\<close>

record DigestAuth =
  realm :: string
  nonce :: string
  qop :: string
  opaque :: string
  algorithm :: string
  nc :: int
  cnonce :: string

definition NewDigestAuth :: DigestAuth where
  "NewDigestAuth = \<lparr>realm = [], nonce = [], qop = [], opaque = [], algorithm = [], nc = 1, cnonce = []\<rparr>"

subsection \<open>The regular expression of parseKeyValuePairs\<close>

text \<open>
  The pattern is \<^verbatim>\<open>(\w+)=(?:"([^"]*)"|([^,\s]+))\<close>. In Go's syntax \<^verbatim>\<open>\w\<close> is
  \<^verbatim>\<open>[0-9A-Za-z_]\<close> and \<^verbatim>\<open>\s\<close> is tab, newline, form feed, carriage return and
  space. All classes of the pattern are decided by ASCII bytes, so matching bytes and
  matching runes agree.
\<close>

definition is_word :: "char \<Rightarrow> bool" where
  "is_word c \<longleftrightarrow>
     (let n = (of_char c :: nat)
      in (48 \<le> n \<and> n \<le> 57) \<or> (65 \<le> n \<and> n \<le> 90) \<or> (97 \<le> n \<and> n \<le> 122) \<or> n = 95)"

definition is_space :: "char \<Rightarrow> bool" where
  "is_space c \<longleftrightarrow>
     (let n = (of_char c :: nat) in n = 9 \<or> n = 10 \<or> n = 12 \<or> n = 13 \<or> n = 32)"

definition is_token :: "char \<Rightarrow> bool" where
  "is_token c \<longleftrightarrow> c \<noteq> CHR '','' \<and> \<not> is_space c"

definition not_quote :: "char \<Rightarrow> bool" where
  "not_quote c \<longleftrightarrow> c \<noteq> CHR 0x22"

text \<open>
  The second alternative \<^verbatim>\<open>([^,\s]+)\<close> on the text after the equals sign: the longest
  non-empty run of bytes that are neither comma nor white space. The result is the
  submatches 1, 2, 3 and the text after the match.
\<close>

definition match_unquoted :: "string \<Rightarrow> string \<Rightarrow> (string \<times> string \<times> string \<times> string) option" where
  "match_unquoted key r =
     (let v = takeWhile is_token r
      in if v = [] then None else Some (key, [], v, dropWhile is_token r))"

text \<open>
  A match that begins at the first byte of the text. \<^verbatim>\<open>\w+\<close> is followed by an equals
  sign, which is no word byte, so the key is the whole run of word bytes. The first
  alternative \<^verbatim>\<open>"([^"]*)"\<close> is preferred; it needs a closing quote. An unmatched
  submatch is the empty string in the result of \<^verbatim>\<open>FindAllStringSubmatch\<close>.
\<close>

definition match_here :: "string \<Rightarrow> (string \<times> string \<times> string \<times> string) option" where
  "match_here s =
     (let key = takeWhile is_word s
      in if key = [] then None
         else (case dropWhile is_word s of
                 [] \<Rightarrow> None
               | c # r \<Rightarrow>
                   if c \<noteq> CHR ''='' then None
                   else (case r of
                           [] \<Rightarrow> None
                         | q # r' \<Rightarrow>
                             if q = CHR 0x22 then
                               (case dropWhile not_quote r' of
                                  [] \<Rightarrow> match_unquoted key r
                                | _ # rest \<Rightarrow> Some (key, takeWhile not_quote r', [], rest))
                             else match_unquoted key r)))"

text \<open>
  \<^verbatim>\<open>FindAllStringSubmatch(data, -1)\<close>: the leftmost match, then the leftmost match in
  the text after it, and so on. The pattern matches no empty string.
\<close>

function FindAllStringSubmatch :: "string \<Rightarrow> (string \<times> string \<times> string) list" where
  "FindAllStringSubmatch [] = []"
| "FindAllStringSubmatch (c # cs) =
     (case match_here (c # cs) of
        None \<Rightarrow> FindAllStringSubmatch cs
      | Some (key, g2, g3, rest) \<Rightarrow> (key, g2, g3) # FindAllStringSubmatch rest)"
  by pat_completeness auto
termination
proof -
  have unquoted: "length rest \<le> length r"
    if "match_unquoted key r = Some (k, g2, g3, rest)" for key r k g2 g3 rest
    using that by (auto simp: match_unquoted_def Let_def length_dropWhile_le split: if_splits)
  have shorter: "length rest < length s"
    if m: "match_here s = Some (k, g2, g3, rest)" for s k g2 g3 rest
  proof -
    have d: "length (dropWhile is_word s) \<le> length s"
      by (rule length_dropWhile_le)
    from m obtain c r where cr: "dropWhile is_word s = c # r"
      by (auto simp: match_here_def Let_def split: if_splits list.splits)
    with d have rs: "length r < length s" by simp
    from m cr obtain q r' where qr: "r = q # r'"
      by (auto simp: match_here_def Let_def split: if_splits list.splits)
    show ?thesis
    proof (cases "q = CHR 0x22")
      case False
      from m have "match_unquoted (takeWhile is_word s) r = Some (k, g2, g3, rest)"
        by (simp add: match_here_def Let_def cr qr False split: if_splits)
      from unquoted[OF this] rs show ?thesis by simp
    next
      case True
      show ?thesis
      proof (cases "dropWhile not_quote r'")
        case Nil
        from m have "match_unquoted (takeWhile is_word s) r = Some (k, g2, g3, rest)"
          by (simp add: match_here_def Let_def cr qr True Nil split: if_splits)
        from unquoted[OF this] rs show ?thesis by simp
      next
        case (Cons x xs)
        from m have "rest = xs"
          by (simp add: match_here_def Let_def cr qr True Cons split: if_splits)
        moreover have "length (dropWhile not_quote r') \<le> length r'"
          by (rule length_dropWhile_le)
        ultimately show ?thesis using Cons rs qr by simp
      qed
    qed
  qed
  show ?thesis
    by (relation "measure length") (auto dest: shorter)
qed

text \<open>
  A Go \<^verbatim>\<open>map[string]string\<close>; reading a key that is absent gives the empty string.
\<close>

definition map_get :: "(string \<rightharpoonup> string) \<Rightarrow> string \<Rightarrow> string" where
  "map_get m k = (case m k of None \<Rightarrow> [] | Some v \<Rightarrow> v)"

definition store_match :: "(string \<rightharpoonup> string) \<Rightarrow> string \<times> string \<times> string \<Rightarrow> (string \<rightharpoonup> string)" where
  "store_match pairs m =
     (case m of (key, g2, g3) \<Rightarrow>
        (let v = g2; v' = (if v = [] then g3 else v) in pairs(key \<mapsto> v')))"

definition parseKeyValuePairs :: "string \<Rightarrow> (string \<rightharpoonup> string)" where
  "parseKeyValuePairs data = foldl store_match Map.empty (FindAllStringSubmatch data)"

subsection \<open>ParseChallenge and GenerateAuthHeader\<close>

definition HasPrefix :: "string \<Rightarrow> string \<Rightarrow> bool" where
  "HasPrefix s pre \<longleftrightarrow> take (length pre) s = pre"

definition TrimPrefix :: "string \<Rightarrow> string \<Rightarrow> string" where
  "TrimPrefix s pre = (if HasPrefix s pre then drop (length pre) s else s)"

text \<open>
  \<^verbatim>\<open>generateCnonce\<close> formats the 16 bytes that \<^verbatim>\<open>rand.Read\<close> delivers; they are the
  argument \<open>b\<close>.
\<close>

definition generateCnonce :: "string \<Rightarrow> string" where
  "generateCnonce b = fmt_x_bytes b"

text \<open>
  \<^verbatim>\<open>ParseChallenge\<close> mutates the receiver: the model returns the error (or nil) and
  the receiver after the call. \<open>rnd\<close> is the random bytes read by \<^verbatim>\<open>generateCnonce\<close>.
\<close>

definition ParseChallenge :: "DigestAuth \<Rightarrow> string \<Rightarrow> string \<Rightarrow> error option \<times> DigestAuth" where
  "ParseChallenge d authHeader rnd =
     (if authHeader = [] then (Some (GenericError ''empty auth header''), d)
      else if \<not> HasPrefix authHeader ''Digest '' then
        (Some (GenericError ''not a digest auth header''), d)
      else
        (let challengeData = TrimPrefix authHeader ''Digest '';
             pairs = parseKeyValuePairs challengeData;
             d1 = d\<lparr>realm := map_get pairs ''realm'',
                    nonce := map_get pairs ''nonce'',
                    qop := map_get pairs ''qop'',
                    opaque := map_get pairs ''opaque'',
                    algorithm := map_get pairs ''algorithm''\<rparr>;
             d2 = (if algorithm d1 = [] then d1\<lparr>algorithm := ''MD5''\<rparr> else d1)
         in if realm d2 = [] then (Some (GenericError ''missing realm in digest challenge''), d2)
            else if nonce d2 = [] then (Some (GenericError ''missing nonce in digest challenge''), d2)
            else (None, d2\<lparr>cnonce := generateCnonce rnd\<rparr>)))"

definition generateHA1 :: "DigestAuth \<Rightarrow> string \<Rightarrow> string \<Rightarrow> string" where
  "generateHA1 d username password =
     fmt_x_bytes (md5_sum (username @ '':'' @ realm d @ '':'' @ password))"

definition generateHA2 :: "DigestAuth \<Rightarrow> string \<Rightarrow> string \<Rightarrow> string" where
  "generateHA2 d method uri = fmt_x_bytes (md5_sum (method @ '':'' @ uri))"

definition generateResponseWithQop :: "DigestAuth \<Rightarrow> string \<Rightarrow> string \<Rightarrow> string" where
  "generateResponseWithQop d ha1 ha2 =
     fmt_x_bytes (md5_sum (ha1 @ '':'' @ nonce d @ '':'' @ fmt_08x (nc d) @ '':'' @ cnonce d
                            @ '':'' @ qop d @ '':'' @ ha2))"

definition generateResponseWithoutQop :: "DigestAuth \<Rightarrow> string \<Rightarrow> string \<Rightarrow> string" where
  "generateResponseWithoutQop d ha1 ha2 =
     fmt_x_bytes (md5_sum (ha1 @ '':'' @ nonce d @ '':'' @ ha2))"

definition GenerateAuthHeader ::
  "DigestAuth \<Rightarrow> string \<Rightarrow> string \<Rightarrow> string \<Rightarrow> string \<Rightarrow> string" where
  \<open>GenerateAuthHeader d username password method uri =
     (if nonce d = [] then []
      else
        (let ha1 = generateHA1 d username password;
             ha2 = generateHA2 d method uri;
             response = (if qop d = ''auth'' then generateResponseWithQop d ha1 ha2
                         else generateResponseWithoutQop d ha1 ha2);
             authHeader = ''Digest '' @ (''username="'' @ username @ ''"'')
                 @ ('', realm="'' @ realm d @ ''"'')
                 @ ('', nonce="'' @ nonce d @ ''"'')
                 @ ('', uri="'' @ uri @ ''"'')
                 @ ('', response="'' @ response @ ''"'');
             authHeader1 = (if qop d \<noteq> [] then
                              authHeader @ ('', qop='' @ qop d) @ ('', nc='' @ fmt_08x (nc d))
                                @ ('', cnonce="'' @ cnonce d @ ''"'')
                            else authHeader);
             authHeader2 = (if opaque d \<noteq> [] then authHeader1 @ ('', opaque="'' @ opaque d @ ''"'')
                            else authHeader1);
             authHeader3 = (if algorithm d \<noteq> [] then authHeader2 @ ('', algorithm='' @ algorithm d)
                            else authHeader2)
         in authHeader3))\<close>

section \<open>Package client: the request dispatcher\<close>

text \<open>
  The types of \<^verbatim>\<open>net/http\<close> that the dispatcher touches. A header maps a key in
  canonical form to its values; \<^verbatim>\<open>Get\<close> returns the first value of the key or the
  empty string, \<^verbatim>\<open>Set\<close> replaces the values of the key. The keys the source passes
  are written in the canonical form that both methods convert them to:
  \<open>Www-Authenticate\<close>, \<open>Authorization\<close>, \<open>X-Ratelimit-Reset\<close>. A body is the bytes it
  delivers when read to the end; a request without body has \<open>None\<close>.
\<close>

type_synonym Header = "string \<rightharpoonup> string list"

definition Header_Get :: "Header \<Rightarrow> string \<Rightarrow> string" where
  "Header_Get h key = (case h key of None \<Rightarrow> [] | Some [] \<Rightarrow> [] | Some (v # _) \<Rightarrow> v)"

definition Header_Set :: "Header \<Rightarrow> string \<Rightarrow> string \<Rightarrow> Header" where
  "Header_Set h key v = h(key \<mapsto> [v])"

record URL =
  URL_String :: string
  URL_Path :: string

record Request =
  Method :: string
  URL :: URL
  Header :: Header
  Body :: "string option"

record Response =
  Response_StatusCode :: int
  Response_Header :: Header
  Response_Body :: string

record Client =
  baseURL :: string
  publicKey :: string
  privateKey :: string
  digestAuth :: DigestAuth
  retryExecutor :: RetryPolicy

text \<open>
  \<^verbatim>\<open>executeHTTPRequest\<close>. The transport \<^verbatim>\<open>c.httpClient.Do\<close> is the parameter \<open>Do\<close>: it
  takes the request and the world and returns a transport error or a response, and the
  world after the exchange. \<^verbatim>\<open>http.NewRequest\<close> is the parameter \<open>NewRequest\<close>, from
  method, URL string and body to an error or a request. The receiver's \<open>digestAuth\<close>
  is mutated by \<open>ParseChallenge\<close>, so the client after the call is returned as well.
  Reading the body into \<open>bodyBytes\<close> and putting a fresh reader over the same bytes
  back leaves the request's bytes as they were.
\<close>

definition executeHTTPRequest ::
  "(string \<Rightarrow> string \<Rightarrow> string option \<Rightarrow> error + Request) \<Rightarrow>
   (Request \<Rightarrow> 'w \<Rightarrow> (error + Response) \<times> 'w) \<Rightarrow> string \<Rightarrow> Client \<Rightarrow> Request \<Rightarrow> 'w \<Rightarrow>
   (error + Response) \<times> Client \<times> 'w" where
  "executeHTTPRequest NewRequest Do rnd c req w =
     (let bodyBytes = Body req
      in case Do req w of
           (Inl err, w1) \<Rightarrow> (Inl err, c, w1)
         | (Inr resp, w1) \<Rightarrow>
             if Response_StatusCode resp = 401 then
               (let authHeader = Header_Get (Response_Header resp) ''Www-Authenticate''
                in if authHeader \<noteq> [] then
                     (case ParseChallenge (digestAuth c) authHeader rnd of
                        (Some err, d) \<Rightarrow>
                          (Inl (GenericError (''failed to parse auth challenge: '' @ Error err)),
                           c\<lparr>digestAuth := d\<rparr>, w1)
                      | (None, d) \<Rightarrow>
                          (let newBody = bodyBytes
                           in case NewRequest (Method req) (URL_String (URL req)) newBody of
                                Inl err \<Rightarrow>
                                  (Inl (GenericError (''failed to create auth request: '' @ Error err)),
                                   c\<lparr>digestAuth := d\<rparr>, w1)
                              | Inr newReq \<Rightarrow>
                                  (let newReq1 = newReq\<lparr>Header := Header newReq ++ Header req\<rparr>;
                                       authValue = GenerateAuthHeader d (publicKey c) (privateKey c)
                                                     (Method req) (URL_Path (URL req));
                                       newReq2 = newReq1\<lparr>Header :=
                                                   Header_Set (Header newReq1) ''Authorization'' authValue\<rparr>
                                   in case Do newReq2 w1 of
                                        (res, w2) \<Rightarrow> (res, c\<lparr>digestAuth := d\<rparr>, w2))))
                   else (Inr resp, c, w1))
             else (Inr resp, c, w1))"

subsection \<open>parseAPIError\<close>

text \<open>
  \<^verbatim>\<open>strconv.ParseInt(s, 10, 64)\<close>: an optional sign, then one or more decimal
  digits, and the value must fit 64 bits; \<open>None\<close> is the error.
\<close>

definition is_digit :: "char \<Rightarrow> bool" where
  "is_digit c \<longleftrightarrow> 48 \<le> (of_char c :: nat) \<and> (of_char c :: nat) \<le> 57"

definition dec_value :: "string \<Rightarrow> nat" where
  "dec_value ds = foldl (\<lambda>n c. 10 * n + ((of_char c :: nat) - 48)) 0 ds"

definition ParseInt :: "string \<Rightarrow> int option" where
  "ParseInt s =
     (case s of
        [] \<Rightarrow> None
      | c # cs \<Rightarrow>
          (let neg = (c = CHR ''-'');
               ds = (if c = CHR ''+'' \<or> c = CHR ''-'' then cs else s)
           in if ds = [] \<or> \<not> list_all is_digit ds then None
              else (let un = dec_value ds
                    in if \<not> neg \<and> un \<ge> 2 ^ 63 then None
                       else if neg \<and> un > 2 ^ 63 then None
                       else Some (if neg then - int un else int un))))"

text \<open>
  \<^verbatim>\<open>models.ErrorResponse\<close>, the decoded error body; a nil pointer is \<open>None\<close>.
\<close>

record ErrorResponse =
  ErrorResponse_Code :: "int option"
  ErrorResponse_Message :: "string option"
  ErrorResponse_Details :: "any list"

text \<open>
  \<^verbatim>\<open>parseAPIError\<close>. The JSON decoder is the parameter \<open>Decode\<close>, from the bytes of the
  response body to the decoded error response, \<open>None\<close> when decoding fails;
  \<^verbatim>\<open>http.StatusText\<close> is the parameter \<open>StatusText\<close>.
\<close>

definition parseAPIError ::
  "(string \<Rightarrow> ErrorResponse option) \<Rightarrow> (int \<Rightarrow> string) \<Rightarrow> Response \<Rightarrow> APIError" where
  "parseAPIError Decode StatusText resp =
     (let apiError = \<lparr>StatusCode = Response_StatusCode resp, Code = 0, Message = [], Details = []\<rparr>;
          apiError1 =
            (case Decode (Response_Body resp) of
               Some errorResp \<Rightarrow>
                 (let a1 = (case ErrorResponse_Code errorResp of
                              Some code \<Rightarrow> apiError\<lparr>Code := code\<rparr> | None \<Rightarrow> apiError);
                      a2 = (case ErrorResponse_Message errorResp of
                              Some msg \<Rightarrow> a1\<lparr>Message := msg\<rparr> | None \<Rightarrow> a1)
                  in a2\<lparr>Details := ErrorResponse_Details errorResp\<rparr>)
             | None \<Rightarrow> apiError\<lparr>Message := StatusText (Response_StatusCode resp)\<rparr>)
      in if Response_StatusCode resp = 429 then
           (let resetHeader = Header_Get (Response_Header resp) ''X-Ratelimit-Reset''
            in if resetHeader \<noteq> [] then
                 (case ParseInt resetHeader of
                    Some resetTime \<Rightarrow>
                      apiError1\<lparr>Details := Details apiError1
                                    @ [AnyMap [(''rate_limit_reset'', AnyInt64 resetTime)]]\<rparr>
                  | None \<Rightarrow> apiError1)
               else apiError1)
         else apiError1)"

section \<open>Fixtures of the retry tests\<close>


text \<open>
  The closure of \<^verbatim>\<open>TestRetryExecutor_Execute\<close>: it counts its calls in the world and
  fails with the same error each time.
\<close>

definition op_always :: "error \<Rightarrow> nat \<Rightarrow> error option \<times> nat" where
  "op_always e callCount = (Some e, callCount + 1)"

definition status_error :: "int \<Rightarrow> error" where
  "status_error s = APIErr \<lparr>StatusCode = s, Code = 0, Message = [], Details = []\<rparr>"

text \<open>\<^verbatim>\<open>context.Background()\<close> is never done: every wait ends with the timer.\<close>

definition ctx_Background :: "int \<Rightarrow> 'w \<Rightarrow> error option \<times> 'w" where
  "ctx_Background delay w = (None, w)"

text \<open>A context that is cancelled during the wait that follows call number \<open>k\<close>.\<close>

definition ctx_cancelled_after :: "nat \<Rightarrow> int \<Rightarrow> nat \<Rightarrow> error option \<times> nat" where
  "ctx_cancelled_after k delay callCount =
     (if callCount = k then (Some (GenericError ''context canceled''), callCount)
      else (None, callCount))"

text \<open>The out-of-range conversion on amd64 yields the smallest int64.\<close>

definition oor_amd64 :: "int \<Rightarrow> int" where
  "oor_amd64 k = - (2 ^ 63)"

section \<open>Notions of the specification for the authenticator\<close>


text \<open>The key-value pairs of a challenge header: those of the text after the scheme.\<close>

definition challenge_pairs :: "string \<Rightarrow> (string \<rightharpoonup> string)" where
  "challenge_pairs authHeader = parseKeyValuePairs (TrimPrefix authHeader ''Digest '')"



text \<open>
  A well-formed challenge as the specification describes it: pairs \<open>key="value"\<close> or
  \<open>key=value\<close>, separated by a comma and a space. A key is a non-empty run of word
  bytes; a quoted value holds no quote; an unquoted value is non-empty, holds neither
  comma nor white space and does not begin with a quote.
\<close>

datatype param = Quoted string string | Unquoted string string

fun param_key :: "param \<Rightarrow> string" where
  "param_key (Quoted k v) = k"
| "param_key (Unquoted k v) = k"

fun param_value :: "param \<Rightarrow> string" where
  "param_value (Quoted k v) = v"
| "param_value (Unquoted k v) = v"

fun wf_param :: "param \<Rightarrow> bool" where
  "wf_param (Quoted k v) \<longleftrightarrow> k \<noteq> [] \<and> list_all is_word k \<and> list_all not_quote v"
| "wf_param (Unquoted k v) \<longleftrightarrow>
     k \<noteq> [] \<and> list_all is_word k \<and> v \<noteq> [] \<and> list_all is_token v \<and> not_quote (hd v)"

text \<open>The submatches 1, 2 and 3 that a pair is expected to give.\<close>

fun param_match :: "param \<Rightarrow> string \<times> string \<times> string" where
  "param_match (Quoted k v) = (k, v, [])"
| "param_match (Unquoted k v) = (k, [], v)"

fun render_param :: "param \<Rightarrow> string" where
  "render_param (Quoted k v) = k @ ''='' @ [CHR 0x22] @ v @ [CHR 0x22]"
| "render_param (Unquoted k v) = k @ ''='' @ v"

fun render_params :: "param list \<Rightarrow> string" where
  "render_params [] = []"
| "render_params [p] = render_param p"
| "render_params (p # q # ps) = render_param p @ '', '' @ render_params (q # ps)"

text \<open>The authenticator of \<^verbatim>\<open>TestDigestAuth_GenerateAuthHeader\<close>, and its challenge.\<close>

definition test_auth :: DigestAuth where
  "test_auth = \<lparr>realm = ''tidbcloud'', nonce = ''dcd98b7102dd2f0e8b11d0f600bfb0c093'',
     qop = ''auth'', opaque = ''5ccc069c403ebaf9f0171e9517f40e41'', algorithm = ''MD5'',
     nc = 0, cnonce = []\<rparr>"

definition test_challenge :: string where
  \<open>test_challenge = ''Digest realm="tidbcloud", nonce="dcd98b7102dd2f0e8b11d0f600bfb0c093", qop="auth", opaque="5ccc069c403ebaf9f0171e9517f40e41", algorithm="MD5"''\<close>

definition test_parsed :: "string \<Rightarrow> DigestAuth" where
  "test_parsed cn = \<lparr>realm = ''tidbcloud'', nonce = ''dcd98b7102dd2f0e8b11d0f600bfb0c093'',
     qop = ''auth'', opaque = ''5ccc069c403ebaf9f0171e9517f40e41'', algorithm = ''MD5'',
     nc = 1, cnonce = cn\<rparr>"

definition test_params :: "param list" where
  "test_params = [Quoted ''realm'' ''tidbcloud'', Quoted ''nonce'' ''dcd98b7102dd2f0e8b11d0f600bfb0c093'',
     Quoted ''qop'' ''auth'', Quoted ''opaque'' ''5ccc069c403ebaf9f0171e9517f40e41'',
     Quoted ''algorithm'' ''MD5'']"

section \<open>Fixtures of the client tests\<close>

text \<open>
  The world of these runs is the list of the requests that reached the server, in
  order. The first server is the handler of the client tests: it answers a request
  without \<open>Authorization\<close> with 401 and a digest challenge, and any other request with
  200. The second server answers every request with 401 and a challenge of another
  scheme.
\<close>

definition challenge_401 :: Response where
  \<open>challenge_401 = \<lparr>Response_StatusCode = 401,
     Response_Header = [''Www-Authenticate'' \<mapsto> [''Digest realm="tidbcloud", nonce="test123", qop="auth"'']],
     Response_Body = []\<rparr>\<close>

definition ok_200 :: Response where
  \<open>ok_200 = \<lparr>Response_StatusCode = 200, Response_Header = Map.empty,
     Response_Body = ''{"items":[],"total":0}''\<rparr>\<close>

definition basic_401 :: Response where
  \<open>basic_401 = \<lparr>Response_StatusCode = 401,
     Response_Header = [''Www-Authenticate'' \<mapsto> [''Basic realm="tidbcloud"'']],
     Response_Body = []\<rparr>\<close>

definition server_digest :: "Request \<Rightarrow> Request list \<Rightarrow> (error + Response) \<times> Request list" where
  "server_digest r seen =
     (if Header_Get (Header r) ''Authorization'' = [] then (Inr challenge_401, seen @ [r])
      else (Inr ok_200, seen @ [r]))"

definition server_basic :: "Request \<Rightarrow> Request list \<Rightarrow> (error + Response) \<times> Request list" where
  "server_basic r seen = (Inr basic_401, seen @ [r])"

definition test_url :: URL where
  "test_url = \<lparr>URL_String = ''https://api.tidbcloud.com/api/v1beta/projects'',
     URL_Path = ''/api/v1beta/projects''\<rparr>"

definition test_request :: Request where
  "test_request = \<lparr>Method = ''POST'', URL = test_url,
     Header = [''Content-Type'' \<mapsto> [''application/json'']], Body = Some ''{}''\<rparr>"

text \<open>\<^verbatim>\<open>http.NewRequest\<close> on the URL string of the test request.\<close>

definition test_NewRequest :: "string \<Rightarrow> string \<Rightarrow> string option \<Rightarrow> error + Request" where
  "test_NewRequest method u body =
     (if u = URL_String test_url
      then Inr \<lparr>Method = method, URL = test_url, Header = Map.empty, Body = body\<rparr>
      else Inl (GenericError ''parse error''))"

definition test_client :: Client where
  "test_client = \<lparr>baseURL = ''https://api.tidbcloud.com'', publicKey = ''test_public_key'',
     privateKey = ''test_private_key'', digestAuth = NewDigestAuth, retryExecutor = NewRetryPolicy\<rparr>"

definition test_after_challenge :: DigestAuth where
  "test_after_challenge = \<lparr>realm = ''tidbcloud'', nonce = ''test123'', qop = ''auth'', opaque = [],
     algorithm = ''MD5'', nc = 1, cnonce = ''30313233343536373839616263646566''\<rparr>"

definition test_auth_request :: Request where
  "test_auth_request = \<lparr>Method = ''POST'', URL = test_url,
     Header = [''Content-Type'' \<mapsto> [''application/json''],
               ''Authorization'' \<mapsto> [GenerateAuthHeader test_after_challenge ''test_public_key''
                                      ''test_private_key'' ''POST'' ''/api/v1beta/projects'']],
     Body = Some ''{}''\<rparr>"

text \<open>
  Scenario C of the specification: a 429 response with the reset header, and what the
  JSON decoder gives for its body.
\<close>

definition rate_limited_429 :: Response where
  \<open>rate_limited_429 = \<lparr>Response_StatusCode = 429,
     Response_Header = [''X-Ratelimit-Reset'' \<mapsto> [''1700000000'']],
     Response_Body = ''{"code":49900007,"message":"rate limit exceeded"}''\<rparr>\<close>

definition test_Decode :: "string \<Rightarrow> ErrorResponse option" where
  \<open>test_Decode body =
     (if body = ''{"code":49900007,"message":"rate limit exceeded"}''
      then Some \<lparr>ErrorResponse_Code = Some 49900007,
                  ErrorResponse_Message = Some ''rate limit exceeded'',
                  ErrorResponse_Details = []\<rparr>
      else None)\<close>

definition test_StatusText :: "int \<Rightarrow> string" where
  "test_StatusText code = (if code = 429 then ''Too Many Requests'' else [])"

section \<open>The backoff policy\<close>

text \<open>
  C5: \<open>ShouldRetry\<close> is false whenever the attempt has reached \<open>MaxAttempts\<close>; below
  it, it is true exactly for an error that is no API error and for an API error whose
  status is 429, 500, 502, 503 or 504, so an API error with any other status is never
  retried.
\<close>

theorem ShouldRetry_characterisation:
  "(attempt \<ge> MaxAttempts p \<longrightarrow> \<not> ShouldRetry p err attempt) \<and>
   (attempt < MaxAttempts p \<longrightarrow>
      (ShouldRetry p err attempt \<longleftrightarrow>
         (\<exists>m. err = GenericError m) \<or>
         (\<exists>a. err = APIErr a \<and> StatusCode a \<in> {429, 500, 502, 503, 504}))) \<and>
   (\<forall>a. err = APIErr a \<and> StatusCode a \<notin> {429, 500, 502, 503, 504} \<longrightarrow>
      \<not> ShouldRetry p err attempt)"
  by (cases err) (auto simp: IsRetryable_def)

theorem ShouldRetry_characterisation_witness:
  "ShouldRetry NewRetryPolicy (status_error 429) 1 \<and>
   \<not> ShouldRetry NewRetryPolicy (status_error 429) 3 \<and>
   ShouldRetry NewRetryPolicy (status_error 500) 1 \<and>
   \<not> ShouldRetry NewRetryPolicy (status_error 400) 1 \<and>
   ShouldRetry NewRetryPolicy (GenericError ''network error'') 1 \<and>
   \<not> ShouldRetry NewRetryPolicy (GenericError ''network error'') 3"
  using ShouldRetry_characterisation [of NewRetryPolicy 1 "status_error 429"]
    ShouldRetry_characterisation [of NewRetryPolicy 3 "status_error 429"]
    ShouldRetry_characterisation [of NewRetryPolicy 1 "status_error 500"]
    ShouldRetry_characterisation [of NewRetryPolicy 1 "status_error 400"]
    ShouldRetry_characterisation [of NewRetryPolicy 1 "GenericError ''network error''"]
    ShouldRetry_characterisation [of NewRetryPolicy 3 "GenericError ''network error''"]
  by (simp add: NewRetryPolicy_def status_error_def)

lemma wrap64_id: "is_int64 x \<Longrightarrow> wrap64 x = x"
  unfolding is_int64_def wrap64_def by (simp add: mod_pos_pos_trivial)

text \<open>
  Where neither the conversion nor the product leaves the 64-bit range, the delay is
  the documented \<open>min (BaseDelay * 2^(attempt-1)) MaxDelay\<close>.
\<close>

lemma CalculateDelay_in_range:
  assumes "1 \<le> n" "n \<le> 63" "0 \<le> BaseDelay p" "2 ^ nat (n - 1) * BaseDelay p < 2 ^ 63"
  shows "CalculateDelay oor p n = min (BaseDelay p * 2 ^ nat (n - 1)) (MaxDelay p)"
proof -
  have a: "wrap64 (n - 1) = n - 1"
    using assms by (intro wrap64_id) (simp add: is_int64_def)
  have b: "Pow2Duration oor (n - 1) = 2 ^ nat (n - 1)"
    using assms by (simp add: Pow2Duration_def)
  have nn: "0 \<le> 2 ^ nat (n - 1) * BaseDelay p"
    using assms by simp
  have "is_int64 (2 ^ nat (n - 1) * BaseDelay p)"
    unfolding is_int64_def using assms(4) nn by linarith
  then have c: "wrap64 (2 ^ nat (n - 1) * BaseDelay p) = 2 ^ nat (n - 1) * BaseDelay p"
    by (rule wrap64_id)
  show ?thesis
    unfolding CalculateDelay_def a b c Let_def by (simp add: min_def mult.commute)
qed

lemma CalculateDelay_le_MaxDelay: "CalculateDelay oor p n \<le> MaxDelay p"
  by (simp add: CalculateDelay_def Let_def)

lemma CalculateDelay_default_first_attempts:
  "CalculateDelay oor NewRetryPolicy 1 = 1 * Second"
  "CalculateDelay oor NewRetryPolicy 2 = 2 * Second"
  "CalculateDelay oor NewRetryPolicy 3 = 4 * Second"
  by (simp_all add: CalculateDelay_def Pow2Duration_def wrap64_def NewRetryPolicy_def Second_def)

text \<open>
  C4: for every attempt \<open>n \<ge> 1\<close> the delay is \<open>min (BaseDelay * 2^(n-1)) MaxDelay\<close>, it
  does not decrease from \<open>n\<close> to \<open>n + 1\<close>, and it is at most \<open>MaxDelay\<close>. The code
  departs from this at attempt 35 of the default policy: \<open>2^34\<close> seconds in nanoseconds
  exceed 64 bits, the product wraps to a negative duration, and the cap does not apply
  to it. The documented value there is the cap of 30 seconds, which attempt 34 still
  returns.
\<close>

theorem CalculateDelay_wraps_at_35:
  "CalculateDelay oor NewRetryPolicy 35 = - 1266874889709551616 \<and>
   min (BaseDelay NewRetryPolicy * 2 ^ (35 - 1)) (MaxDelay NewRetryPolicy) = 30 * Second \<and>
   CalculateDelay oor NewRetryPolicy 34 = 30 * Second \<and>
   \<not> CalculateDelay oor NewRetryPolicy 34 \<le> CalculateDelay oor NewRetryPolicy 35"
  by (simp add: CalculateDelay_def Pow2Duration_def wrap64_def NewRetryPolicy_def Second_def)

section \<open>The retry executor\<close>













text \<open>
  The same run of the test, computed: four calls, then the error of the fourth.
\<close>

lemma Execute_always_500:
  "Execute oor NewRetryPolicy ctx_Background (op_always (status_error 500)) 0 =
     (Some (status_error 500),
      [Some (status_error 500), Some (status_error 500), Some (status_error 500),
       Some (status_error 500)], 4)"
  by (simp add: Execute_def Execute_loop.simps NewRetryPolicy_def op_always_def status_error_def
      ctx_Background_def IsRetryable_def)

text \<open>
  C7: when the context is done during the wait that follows a failed invocation,
  \<open>Execute\<close> returns the error of the context and not the error of the operation, and
  the operation is not invoked again: the trace grows by the failed invocation only,
  and the world is the one the wait left. This holds in every iteration of the loop.
\<close>

theorem Execute_cancelled_during_wait:
  "operation w = (Some err, w1) \<Longrightarrow> ShouldRetry p err attempt \<Longrightarrow>
   ctx (CalculateDelay oor p (attempt + 1)) w1 = (Some ctxErr, w2) \<Longrightarrow>
   Execute_loop oor p ctx operation attempt lastErr trace w =
     (Some ctxErr, trace @ [Some err], w2)"
  by (subst Execute_loop.simps) (simp split: if_splits)

theorem Execute_cancelled_during_wait_witness:
  "op_always (status_error 500) 1 = (Some (status_error 500), 2) \<and>
   ShouldRetry NewRetryPolicy (status_error 500) 1 \<and>
   ctx_cancelled_after 2 (CalculateDelay oor_amd64 NewRetryPolicy (1 + 1)) 2
     = (Some (GenericError ''context canceled''), 2) \<and>
   Execute oor_amd64 NewRetryPolicy (ctx_cancelled_after 2) (op_always (status_error 500)) 0 =
     (Some (GenericError ''context canceled''), [Some (status_error 500), Some (status_error 500)], 2)"
proof -
  have op: "op_always (status_error 500) 1 = (Some (status_error 500), 2)"
    by (simp add: op_always_def)
  have sr: "ShouldRetry NewRetryPolicy (status_error 500) 1"
    by (simp add: NewRetryPolicy_def status_error_def IsRetryable_def)
  have cx: "ctx_cancelled_after 2 (CalculateDelay oor_amd64 NewRetryPolicy (1 + 1)) 2
      = (Some (GenericError ''context canceled''), 2)"
    by (simp add: ctx_cancelled_after_def)
  have first: "Execute oor_amd64 NewRetryPolicy (ctx_cancelled_after 2) (op_always (status_error 500)) 0
      = Execute_loop oor_amd64 NewRetryPolicy (ctx_cancelled_after 2) (op_always (status_error 500))
          1 (Some (status_error 500)) [Some (status_error 500)] 1"
    unfolding Execute_def
    by (subst Execute_loop.simps)
      (simp add: NewRetryPolicy_def op_always_def status_error_def IsRetryable_def
        ctx_cancelled_after_def)
  show ?thesis
    using op sr cx first
      Execute_cancelled_during_wait [where operation = "op_always (status_error 500)"
        and ctx = "ctx_cancelled_after 2" and lastErr = "Some (status_error 500)"
        and trace = "[Some (status_error 500)]", OF op sr cx]
    by simp
qed

section \<open>The authenticator\<close>

lemma md5_sum_empty: "fmt_x_bytes (md5_sum []) = ''d41d8cd98f00b204e9800998ecf8427e''"
  by code_simp
















section \<open>Parsing a challenge\<close>

lemma HasPrefix_nonempty: "HasPrefix s ''Digest '' \<Longrightarrow> s \<noteq> []"
  by (auto simp: HasPrefix_def)

lemma ParseChallenge_rejected:
  "authHeader = [] \<or> \<not> HasPrefix authHeader ''Digest '' \<Longrightarrow>
   fst (ParseChallenge d authHeader rnd) \<noteq> None \<and> snd (ParseChallenge d authHeader rnd) = d"
  by (auto simp: ParseChallenge_def)

lemma ParseChallenge_parsed:
  assumes "HasPrefix authHeader ''Digest ''"
  shows "ParseChallenge d authHeader rnd =
    (let pairs = challenge_pairs authHeader;
         d2 = d\<lparr>realm := map_get pairs ''realm'', nonce := map_get pairs ''nonce'',
                qop := map_get pairs ''qop'', opaque := map_get pairs ''opaque'',
                algorithm := (if map_get pairs ''algorithm'' = [] then ''MD5''
                              else map_get pairs ''algorithm'')\<rparr>
     in if map_get pairs ''realm'' = [] then
          (Some (GenericError ''missing realm in digest challenge''), d2)
        else if map_get pairs ''nonce'' = [] then
          (Some (GenericError ''missing nonce in digest challenge''), d2)
        else (None, d2\<lparr>cnonce := generateCnonce rnd\<rparr>))"
  using assms HasPrefix_nonempty[OF assms]
  by (simp add: ParseChallenge_def challenge_pairs_def Let_def)

lemma GenerateAuthHeader_empty_nonce:
  "nonce d = [] \<Longrightarrow> GenerateAuthHeader d username password method uri = []"
  by (simp add: GenerateAuthHeader_def)

lemma GenerateAuthHeader_nonempty:
  "nonce d \<noteq> [] \<Longrightarrow> GenerateAuthHeader d username password method uri \<noteq> []"
  by (simp add: GenerateAuthHeader_def Let_def)




lemma parse_missing_nonce:
  \<open>ParseChallenge test_auth ''Digest realm="test"'' [] =
     (Some (GenericError ''missing nonce in digest challenge''),
      \<lparr>realm = ''test'', nonce = [], qop = [], opaque = [], algorithm = ''MD5'', nc = 0, cnonce = []\<rparr>)\<close>
  by code_simp

lemma parse_not_digest:
  \<open>ParseChallenge test_auth ''Basic realm=test'' [] =
     (Some (GenericError ''not a digest auth header''), test_auth)\<close>
  by code_simp

lemma parse_test_challenge:
  \<open>ParseChallenge NewDigestAuth test_challenge ''0123456789abcdef'' =
     (None, test_parsed ''30313233343536373839616263646566'')\<close>
  by code_simp





text \<open>
  C10: \<open>ParseChallenge\<close> is not atomic on failure. A header that begins with the scheme
  and whose pairs lack realm or nonce fails only after the stored realm, nonce, qop,
  opaque and algorithm have been overwritten with the values of the new challenge
  (the algorithm with its default), so a stored nonce is cleared when the new challenge
  has none, and \<open>GenerateAuthHeader\<close> then returns the empty string. Only the failures
  on an empty header and on a wrong prefix leave every stored state unchanged: each
  failing header of the other kind changes some state.
\<close>

theorem ParseChallenge_not_atomic:
  "(authHeader = [] \<or> \<not> HasPrefix authHeader ''Digest '' \<longrightarrow>
      fst (ParseChallenge d authHeader rnd) \<noteq> None \<and>
      snd (ParseChallenge d authHeader rnd) = d) \<and>
   (HasPrefix authHeader ''Digest '' \<and>
    (map_get (challenge_pairs authHeader) ''realm'' = [] \<or>
     map_get (challenge_pairs authHeader) ''nonce'' = []) \<longrightarrow>
      fst (ParseChallenge d authHeader rnd) \<noteq> None \<and>
      snd (ParseChallenge d authHeader rnd) =
        d\<lparr>realm := map_get (challenge_pairs authHeader) ''realm'',
           nonce := map_get (challenge_pairs authHeader) ''nonce'',
           qop := map_get (challenge_pairs authHeader) ''qop'',
           opaque := map_get (challenge_pairs authHeader) ''opaque'',
           algorithm := (if map_get (challenge_pairs authHeader) ''algorithm'' = [] then ''MD5''
                         else map_get (challenge_pairs authHeader) ''algorithm'')\<rparr> \<and>
      (\<exists>d0. snd (ParseChallenge d0 authHeader rnd) \<noteq> d0) \<and>
      (map_get (challenge_pairs authHeader) ''nonce'' = [] \<longrightarrow>
         GenerateAuthHeader (snd (ParseChallenge d authHeader rnd)) username password method uri = []))"
proof (intro conjI impI)
  assume "authHeader = [] \<or> \<not> HasPrefix authHeader ''Digest ''"
  then show "fst (ParseChallenge d authHeader rnd) \<noteq> None"
    and "snd (ParseChallenge d authHeader rnd) = d"
    using ParseChallenge_rejected[of authHeader d rnd] by simp_all
next
  assume a: "HasPrefix authHeader ''Digest '' \<and>
    (map_get (challenge_pairs authHeader) ''realm'' = [] \<or>
     map_get (challenge_pairs authHeader) ''nonce'' = [])"
  then have p: "HasPrefix authHeader ''Digest ''" by simp
  show "fst (ParseChallenge d authHeader rnd) \<noteq> None"
    using a by (auto simp: ParseChallenge_parsed[OF p] Let_def)
  show "snd (ParseChallenge d authHeader rnd) =
        d\<lparr>realm := map_get (challenge_pairs authHeader) ''realm'',
           nonce := map_get (challenge_pairs authHeader) ''nonce'',
           qop := map_get (challenge_pairs authHeader) ''qop'',
           opaque := map_get (challenge_pairs authHeader) ''opaque'',
           algorithm := (if map_get (challenge_pairs authHeader) ''algorithm'' = [] then ''MD5''
                         else map_get (challenge_pairs authHeader) ''algorithm'')\<rparr>"
    using a by (auto simp: ParseChallenge_parsed[OF p] Let_def)
  have "algorithm (snd (ParseChallenge NewDigestAuth authHeader rnd)) \<noteq> []"
    using a by (auto simp: ParseChallenge_parsed[OF p] Let_def)
  moreover have "algorithm NewDigestAuth = []"
    by (simp add: NewDigestAuth_def)
  ultimately have "snd (ParseChallenge NewDigestAuth authHeader rnd) \<noteq> NewDigestAuth"
    by metis
  then show "\<exists>d0. snd (ParseChallenge d0 authHeader rnd) \<noteq> d0" ..
  {
    assume "map_get (challenge_pairs authHeader) ''nonce'' = []"
    then have "nonce (snd (ParseChallenge d authHeader rnd)) = []"
      by (simp add: ParseChallenge_parsed[OF p] Let_def)
    then show "GenerateAuthHeader (snd (ParseChallenge d authHeader rnd)) username password method uri = []"
      by (rule GenerateAuthHeader_empty_nonce)
  }
qed

lemma missing_nonce_pairs:
  \<open>HasPrefix ''Digest realm="test"'' ''Digest ''\<close>
  \<open>map_get (challenge_pairs ''Digest realm="test"'') ''nonce'' = []\<close>
  \<open>\<not> HasPrefix ''Basic realm=test'' ''Digest ''\<close>
  by code_simp+

theorem ParseChallenge_not_atomic_witness:
  \<open>HasPrefix ''Digest realm="test"'' ''Digest '' \<and>
   map_get (challenge_pairs ''Digest realm="test"'') ''nonce'' = [] \<and>
   nonce test_auth = ''dcd98b7102dd2f0e8b11d0f600bfb0c093'' \<and>
   fst (ParseChallenge test_auth ''Digest realm="test"'' []) \<noteq> None \<and>
   snd (ParseChallenge test_auth ''Digest realm="test"'' []) =
     \<lparr>realm = ''test'', nonce = [], qop = [], opaque = [], algorithm = ''MD5'', nc = 0, cnonce = []\<rparr> \<and>
   GenerateAuthHeader (snd (ParseChallenge test_auth ''Digest realm="test"'' []))
     ''testuser'' ''testpass'' ''GET'' ''/api/v1beta/projects'' = [] \<and>
   \<not> HasPrefix ''Basic realm=test'' ''Digest '' \<and>
   snd (ParseChallenge test_auth ''Basic realm=test'' []) = test_auth\<close>
proof -
  note a = ParseChallenge_not_atomic [of \<open>''Digest realm="test"''\<close> test_auth "[]" "''testuser''"
      "''testpass''" "''GET''" "''/api/v1beta/projects''"]
  note b = ParseChallenge_not_atomic [of \<open>''Basic realm=test''\<close> test_auth "[]" "''testuser''"
      "''testpass''" "''GET''" "''/api/v1beta/projects''"]
  have h: \<open>HasPrefix ''Digest realm="test"'' ''Digest '' \<and>
    (map_get (challenge_pairs ''Digest realm="test"'') ''realm'' = [] \<or>
     map_get (challenge_pairs ''Digest realm="test"'') ''nonce'' = [])\<close>
    using missing_nonce_pairs(1,2) by blast
  note a2 = a[THEN conjunct2, THEN mp, OF h]
  have g: \<open>GenerateAuthHeader (snd (ParseChallenge test_auth ''Digest realm="test"'' []))
     ''testuser'' ''testpass'' ''GET'' ''/api/v1beta/projects'' = []\<close>
    using a2[THEN conjunct2, THEN conjunct2, THEN conjunct2] missing_nonce_pairs(2) by (rule mp)
  have s: \<open>snd (ParseChallenge test_auth ''Digest realm="test"'' []) =
     \<lparr>realm = ''test'', nonce = [], qop = [], opaque = [], algorithm = ''MD5'', nc = 0, cnonce = []\<rparr>\<close>
    by (simp only: parse_missing_nonce snd_conv)
  have r: \<open>''Basic realm=test'' = [] \<or> \<not> HasPrefix ''Basic realm=test'' ''Digest ''\<close>
    using missing_nonce_pairs(3) by blast
  note b1 = b[THEN conjunct1, THEN mp, OF r]
  have n: "nonce test_auth = ''dcd98b7102dd2f0e8b11d0f600bfb0c093''"
    by (simp add: test_auth_def)
  show ?thesis
    by (intro conjI)
      (fact missing_nonce_pairs(1), fact missing_nonce_pairs(2), fact n, fact a2[THEN conjunct1],
        fact s, fact g, fact missing_nonce_pairs(3), fact b1[THEN conjunct2])
qed

section \<open>Well-formed challenges are captured verbatim\<close>

lemma takeWhile_run: "\<forall>x\<in>set xs. P x \<Longrightarrow> \<not> P y \<Longrightarrow> takeWhile P (xs @ y # ys) = xs"
  by (induction xs) auto

lemma dropWhile_run: "\<forall>x\<in>set xs. P x \<Longrightarrow> \<not> P y \<Longrightarrow> dropWhile P (xs @ y # ys) = y # ys"
  by (induction xs) auto

lemma separators_no_word:
  "\<not> is_word (CHR ''='')" "\<not> is_word (CHR '','')" "\<not> is_word (CHR '' '')"
  by (simp_all add: is_word_def)

lemma separators_no_token: "\<not> is_token (CHR '','')"
  by (simp add: is_token_def)

lemma match_here_quoted:
  assumes "k \<noteq> []" "list_all is_word k" "list_all not_quote v"
  shows "match_here (k @ ''='' @ [CHR 0x22] @ v @ [CHR 0x22] @ rest) = Some (k, v, [], rest)"
proof -
  have w: "\<forall>x\<in>set k. is_word x" using assms(2) by (simp add: list_all_iff)
  have q: "\<forall>x\<in>set v. not_quote x" using assms(3) by (simp add: list_all_iff)
  have nq: "\<not> not_quote (CHR 0x22)" by (simp add: not_quote_def)
  have t: "takeWhile is_word (k @ CHR ''='' # CHR 0x22 # v @ CHR 0x22 # rest) = k"
    using w separators_no_word(1) by (rule takeWhile_run)
  have d: "dropWhile is_word (k @ CHR ''='' # CHR 0x22 # v @ CHR 0x22 # rest)
      = CHR ''='' # CHR 0x22 # v @ CHR 0x22 # rest"
    using w separators_no_word(1) by (rule dropWhile_run)
  have tv: "takeWhile not_quote (v @ CHR 0x22 # rest) = v"
    using q nq by (rule takeWhile_run)
  have dv: "dropWhile not_quote (v @ CHR 0x22 # rest) = CHR 0x22 # rest"
    using q nq by (rule dropWhile_run)
  show ?thesis
    using assms(1) by (simp add: match_here_def Let_def t d tv dv)
qed

lemma match_here_unquoted:
  assumes "k \<noteq> []" "list_all is_word k" "v \<noteq> []" "list_all is_token v" "not_quote (hd v)"
    and "rest = [] \<or> (\<exists>s. rest = CHR '','' # s)"
  shows "match_here (k @ ''='' @ v @ rest) = Some (k, [], v, rest)"
proof -
  have w: "\<forall>x\<in>set k. is_word x" using assms(2) by (simp add: list_all_iff)
  have tk: "\<forall>x\<in>set v. is_token x" using assms(4) by (simp add: list_all_iff)
  obtain c cs where v: "v = c # cs" using assms(3) by (cases v) auto
  with assms(5) have c: "c \<noteq> CHR 0x22" by (simp add: not_quote_def)
  have t: "takeWhile is_word (k @ CHR ''='' # c # cs @ rest) = k"
    using w separators_no_word(1) by (rule takeWhile_run)
  have d: "dropWhile is_word (k @ CHR ''='' # c # cs @ rest) = CHR ''='' # c # cs @ rest"
    using w separators_no_word(1) by (rule dropWhile_run)
  have tv: "takeWhile is_token (v @ rest) = v" and dv: "dropWhile is_token (v @ rest) = rest"
    using assms(6) tk separators_no_token
    by (auto simp: takeWhile_run dropWhile_run)
  have "match_unquoted k (v @ rest) = Some (k, [], v, rest)"
    using assms(3) by (simp add: match_unquoted_def Let_def tv dv)
  then have u: "match_unquoted k (c # cs @ rest) = Some (k, [], c # cs, rest)"
    by (simp add: v)
  have "match_here (k @ CHR ''='' # c # cs @ rest) = Some (k, [], c # cs, rest)"
    using assms(1) c by (simp add: match_here_def Let_def t d u)
  then show ?thesis
    by (simp add: v)
qed

lemma FindAll_match:
  assumes "match_here s = Some (k, g2, g3, rest)"
  shows "FindAllStringSubmatch s = (k, g2, g3) # FindAllStringSubmatch rest"
proof (cases s)
  case Nil
  with assms show ?thesis by (simp add: match_here_def)
next
  case (Cons c cs)
  with assms show ?thesis by simp
qed

lemma FindAll_separator:
  "FindAllStringSubmatch (CHR '','' # CHR '' '' # s) = FindAllStringSubmatch s"
  by (simp add: match_here_def separators_no_word)

lemma FindAll_param:
  assumes "wf_param p" "rest = [] \<or> (\<exists>s. rest = CHR '','' # s)"
  shows "FindAllStringSubmatch (render_param p @ rest) = param_match p # FindAllStringSubmatch rest"
proof (cases p)
  case (Quoted k v)
  with assms(1) have "match_here (k @ ''='' @ [CHR 0x22] @ v @ [CHR 0x22] @ rest) = Some (k, v, [], rest)"
    by (intro match_here_quoted) simp_all
  from FindAll_match[OF this] Quoted show ?thesis by simp
next
  case (Unquoted k v)
  with assms have "match_here (k @ ''='' @ v @ rest) = Some (k, [], v, rest)"
    by (intro match_here_unquoted) simp_all
  from FindAll_match[OF this] Unquoted show ?thesis by simp
qed

lemma FindAll_render:
  "list_all wf_param ps \<Longrightarrow> FindAllStringSubmatch (render_params ps) = map param_match ps"
proof (induction ps rule: render_params.induct)
  case 1
  then show ?case by simp
next
  case (2 p)
  then show ?case using FindAll_param[of p "[]"] by simp
next
  case (3 p q ps)
  from "3.prems" have wp: "wf_param p" and wr: "list_all wf_param (q # ps)"
    by simp_all
  have "FindAllStringSubmatch (render_param p @ CHR '','' # CHR '' '' # render_params (q # ps))
      = param_match p # FindAllStringSubmatch (CHR '','' # CHR '' '' # render_params (q # ps))"
    using wp by (intro FindAll_param) simp_all
  also have "\<dots> = param_match p # FindAllStringSubmatch (render_params (q # ps))"
    by (simp only: FindAll_separator)
  also have "\<dots> = param_match p # map param_match (q # ps)"
    using "3.IH"[OF wr] by simp
  finally show ?case by simp
qed

lemma store_match_param:
  "store_match m (param_match p) = m(param_key p \<mapsto> param_value p)"
  by (cases p) (simp_all add: store_match_def Let_def)

lemma map_upd_add: "m(k \<mapsto> v) ++ n = m ++ ([k \<mapsto> v] ++ n)"
  by (rule ext) (simp add: map_add_def split: option.split)

lemma foldl_store_match:
  "foldl store_match m (map param_match ps) =
     m ++ map_of (rev (map (\<lambda>p. (param_key p, param_value p)) ps))"
proof (induction ps arbitrary: m)
  case Nil
  then show ?case by simp
next
  case (Cons p ps)
  have "foldl store_match m (map param_match (p # ps))
      = foldl store_match (m(param_key p \<mapsto> param_value p)) (map param_match ps)"
    by (simp add: store_match_param)
  also have "\<dots> = m(param_key p \<mapsto> param_value p)
      ++ map_of (rev (map (\<lambda>p. (param_key p, param_value p)) ps))"
    by (rule Cons.IH)
  also have "\<dots> = m ++ ([param_key p \<mapsto> param_value p]
      ++ map_of (rev (map (\<lambda>p. (param_key p, param_value p)) ps)))"
    by (rule map_upd_add)
  also have "[param_key p \<mapsto> param_value p]
      ++ map_of (rev (map (\<lambda>p. (param_key p, param_value p)) ps))
      = map_of (rev (map (\<lambda>p. (param_key p, param_value p)) (p # ps)))"
    by simp
  finally show ?case .
qed

lemma challenge_pairs_render:
  assumes "list_all wf_param ps"
  shows "challenge_pairs (''Digest '' @ render_params ps)
    = map_of (rev (map (\<lambda>p. (param_key p, param_value p)) ps))"
proof -
  have "TrimPrefix (''Digest '' @ render_params ps) ''Digest '' = render_params ps"
    by (simp add: TrimPrefix_def HasPrefix_def)
  then have "challenge_pairs (''Digest '' @ render_params ps)
      = foldl store_match Map.empty (map param_match ps)"
    unfolding challenge_pairs_def parseKeyValuePairs_def
    by (simp only: FindAll_render[OF assms])
  then show ?thesis
    by (simp only: foldl_store_match empty_map_add)
qed

lemma challenge_pairs_verbatim:
  assumes "list_all wf_param ps" "distinct (map param_key ps)" "p \<in> set ps"
  shows "map_get (challenge_pairs (''Digest '' @ render_params ps)) (param_key p) = param_value p"
proof -
  let ?kvs = "map (\<lambda>p. (param_key p, param_value p)) ps"
  have "map fst (rev ?kvs) = rev (map param_key ps)" by (simp add: rev_map comp_def)
  with assms(2) have "distinct (map fst (rev ?kvs))" by simp
  moreover have "(param_key p, param_value p) \<in> set (rev ?kvs)" using assms(3) by auto
  ultimately have "map_of (rev ?kvs) (param_key p) = Some (param_value p)"
    by (rule map_of_is_SomeI)
  then show ?thesis
    unfolding challenge_pairs_render[OF assms(1)] map_get_def by simp
qed

text \<open>
  C6: \<open>ParseChallenge\<close> succeeds for every header that begins with \<open>Digest \<close> and whose
  pairs hold a non-empty realm and a non-empty nonce; it then stores realm, nonce, qop,
  opaque and algorithm as the pairs give them, the algorithm being \<open>MD5\<close> when the pairs
  give none, and a fresh client nonce. It fails for the empty header, for a header
  without the prefix, and for a header whose pairs lack realm or nonce. The pairs of
  a well-formed challenge, quoted or unquoted, are captured verbatim.
\<close>

theorem ParseChallenge_outcome:
  "(HasPrefix authHeader ''Digest '' \<and> map_get (challenge_pairs authHeader) ''realm'' \<noteq> [] \<and>
    map_get (challenge_pairs authHeader) ''nonce'' \<noteq> [] \<longrightarrow>
      ParseChallenge d authHeader rnd =
        (None,
         d\<lparr>realm := map_get (challenge_pairs authHeader) ''realm'',
            nonce := map_get (challenge_pairs authHeader) ''nonce'',
            qop := map_get (challenge_pairs authHeader) ''qop'',
            opaque := map_get (challenge_pairs authHeader) ''opaque'',
            algorithm := (if map_get (challenge_pairs authHeader) ''algorithm'' = [] then ''MD5''
                          else map_get (challenge_pairs authHeader) ''algorithm''),
            cnonce := generateCnonce rnd\<rparr>)) \<and>
   (authHeader = [] \<or> \<not> HasPrefix authHeader ''Digest '' \<or>
    map_get (challenge_pairs authHeader) ''realm'' = [] \<or>
    map_get (challenge_pairs authHeader) ''nonce'' = [] \<longrightarrow>
      fst (ParseChallenge d authHeader rnd) \<noteq> None) \<and>
   (list_all wf_param ps \<and> distinct (map param_key ps) \<longrightarrow>
      (\<forall>p \<in> set ps.
         map_get (challenge_pairs (''Digest '' @ render_params ps)) (param_key p) = param_value p))"
proof (intro conjI impI ballI)
  assume a: "HasPrefix authHeader ''Digest '' \<and> map_get (challenge_pairs authHeader) ''realm'' \<noteq> [] \<and>
    map_get (challenge_pairs authHeader) ''nonce'' \<noteq> []"
  then have p: "HasPrefix authHeader ''Digest ''" by simp
  show "ParseChallenge d authHeader rnd =
        (None,
         d\<lparr>realm := map_get (challenge_pairs authHeader) ''realm'',
            nonce := map_get (challenge_pairs authHeader) ''nonce'',
            qop := map_get (challenge_pairs authHeader) ''qop'',
            opaque := map_get (challenge_pairs authHeader) ''opaque'',
            algorithm := (if map_get (challenge_pairs authHeader) ''algorithm'' = [] then ''MD5''
                          else map_get (challenge_pairs authHeader) ''algorithm''),
            cnonce := generateCnonce rnd\<rparr>)"
    using a by (simp add: ParseChallenge_parsed[OF p] Let_def)
next
  assume a: "authHeader = [] \<or> \<not> HasPrefix authHeader ''Digest '' \<or>
    map_get (challenge_pairs authHeader) ''realm'' = [] \<or>
    map_get (challenge_pairs authHeader) ''nonce'' = []"
  show "fst (ParseChallenge d authHeader rnd) \<noteq> None"
  proof (cases "HasPrefix authHeader ''Digest ''")
    case True
    with a HasPrefix_nonempty[OF True] show ?thesis
      by (auto simp: ParseChallenge_parsed[OF True] Let_def)
  next
    case False
    then show ?thesis using ParseChallenge_rejected[of authHeader d rnd] by simp
  qed
next
  fix p
  assume "list_all wf_param ps \<and> distinct (map param_key ps)" "p \<in> set ps"
  then show "map_get (challenge_pairs (''Digest '' @ render_params ps)) (param_key p) = param_value p"
    by (intro challenge_pairs_verbatim) simp_all
qed

lemma test_challenge_rendered: "test_challenge = ''Digest '' @ render_params test_params"
  by (simp add: test_challenge_def test_params_def)

lemma test_params_wf: "list_all wf_param test_params" "distinct (map param_key test_params)"
  by code_simp+

lemma test_challenge_pairs:
  "HasPrefix test_challenge ''Digest ''"
  "map_get (challenge_pairs test_challenge) ''realm'' = ''tidbcloud''"
  "map_get (challenge_pairs test_challenge) ''nonce'' = ''dcd98b7102dd2f0e8b11d0f600bfb0c093''"
  "map_get (challenge_pairs test_challenge) ''qop'' = ''auth''"
  "map_get (challenge_pairs test_challenge) ''opaque'' = ''5ccc069c403ebaf9f0171e9517f40e41''"
  "map_get (challenge_pairs test_challenge) ''algorithm'' = ''MD5''"
  by code_simp+

lemma unquoted_challenge_pairs:
  "HasPrefix ''Digest realm=tidbcloud, nonce=abc123, qop=auth'' ''Digest ''"
  "map_get (challenge_pairs ''Digest realm=tidbcloud, nonce=abc123, qop=auth'') ''realm'' = ''tidbcloud''"
  "map_get (challenge_pairs ''Digest realm=tidbcloud, nonce=abc123, qop=auth'') ''nonce'' = ''abc123''"
  "map_get (challenge_pairs ''Digest realm=tidbcloud, nonce=abc123, qop=auth'') ''qop'' = ''auth''"
  "map_get (challenge_pairs ''Digest realm=tidbcloud, nonce=abc123, qop=auth'') ''opaque'' = []"
  "map_get (challenge_pairs ''Digest realm=tidbcloud, nonce=abc123, qop=auth'') ''algorithm'' = []"
  by code_simp+

theorem ParseChallenge_outcome_witness:
  "HasPrefix test_challenge ''Digest '' \<and>
   ParseChallenge NewDigestAuth test_challenge ''0123456789abcdef'' =
     (None, test_parsed ''30313233343536373839616263646566'') \<and>
   ParseChallenge NewDigestAuth ''Digest realm=tidbcloud, nonce=abc123, qop=auth'' ''0123456789abcdef'' =
     (None, \<lparr>realm = ''tidbcloud'', nonce = ''abc123'', qop = ''auth'', opaque = [],
        algorithm = ''MD5'', nc = 1, cnonce = ''30313233343536373839616263646566''\<rparr>) \<and>
   fst (ParseChallenge NewDigestAuth [] []) \<noteq> None \<and>
   fst (ParseChallenge NewDigestAuth ''Basic realm=test'' []) \<noteq> None \<and>
   list_all wf_param test_params \<and> distinct (map param_key test_params) \<and>
   map_get (challenge_pairs (''Digest '' @ render_params test_params)) ''opaque''
     = ''5ccc069c403ebaf9f0171e9517f40e41''"
proof -
  note t = ParseChallenge_outcome [of test_challenge NewDigestAuth "''0123456789abcdef''" test_params]
  note u = ParseChallenge_outcome [of "''Digest realm=tidbcloud, nonce=abc123, qop=auth''"
      NewDigestAuth "''0123456789abcdef''" test_params]
  note e = ParseChallenge_outcome [of "[]" NewDigestAuth "[]" test_params]
  note b = ParseChallenge_outcome [of "''Basic realm=test''" NewDigestAuth "[]" test_params]
  have cn: "generateCnonce ''0123456789abcdef'' = ''30313233343536373839616263646566''"
    by code_simp
  have h1: "HasPrefix test_challenge ''Digest '' \<and>
      map_get (challenge_pairs test_challenge) ''realm'' \<noteq> [] \<and>
      map_get (challenge_pairs test_challenge) ''nonce'' \<noteq> []"
    by (simp add: test_challenge_pairs)
  have g1: "ParseChallenge NewDigestAuth test_challenge ''0123456789abcdef'' =
     (None, test_parsed ''30313233343536373839616263646566'')"
    by (simp only: t[THEN conjunct1, THEN mp, OF h1] test_challenge_pairs cn)
      (simp add: NewDigestAuth_def test_parsed_def)
  have h2: "HasPrefix ''Digest realm=tidbcloud, nonce=abc123, qop=auth'' ''Digest '' \<and>
      map_get (challenge_pairs ''Digest realm=tidbcloud, nonce=abc123, qop=auth'') ''realm'' \<noteq> [] \<and>
      map_get (challenge_pairs ''Digest realm=tidbcloud, nonce=abc123, qop=auth'') ''nonce'' \<noteq> []"
    by (simp only: unquoted_challenge_pairs) simp
  have g2: "ParseChallenge NewDigestAuth ''Digest realm=tidbcloud, nonce=abc123, qop=auth'' ''0123456789abcdef'' =
     (None, \<lparr>realm = ''tidbcloud'', nonce = ''abc123'', qop = ''auth'', opaque = [],
        algorithm = ''MD5'', nc = 1, cnonce = ''30313233343536373839616263646566''\<rparr>)"
    by (simp only: u[THEN conjunct1, THEN mp, OF h2] unquoted_challenge_pairs cn)
      (simp add: NewDigestAuth_def)
  have g3: "fst (ParseChallenge NewDigestAuth [] []) \<noteq> None"
    using e[THEN conjunct2, THEN conjunct1] by simp
  have nb: "\<not> HasPrefix ''Basic realm=test'' ''Digest ''"
    by code_simp
  have g4: "fst (ParseChallenge NewDigestAuth ''Basic realm=test'' []) \<noteq> None"
    using b[THEN conjunct2, THEN conjunct1] nb by blast
  have m: "Quoted ''opaque'' ''5ccc069c403ebaf9f0171e9517f40e41'' \<in> set test_params"
    by (simp add: test_params_def)
  have w: "list_all wf_param test_params \<and> distinct (map param_key test_params)"
    using test_params_wf by (rule conjI)
  have "map_get (challenge_pairs (''Digest '' @ render_params test_params))
      (param_key (Quoted ''opaque'' ''5ccc069c403ebaf9f0171e9517f40e41''))
      = param_value (Quoted ''opaque'' ''5ccc069c403ebaf9f0171e9517f40e41'')"
    using t[THEN conjunct2, THEN conjunct2, THEN mp, OF w] m by (rule bspec)
  then have g5: "map_get (challenge_pairs (''Digest '' @ render_params test_params)) ''opaque''
     = ''5ccc069c403ebaf9f0171e9517f40e41''"
    by (simp only: param_key.simps param_value.simps)
  show ?thesis
    by (intro conjI)
      (fact test_challenge_pairs(1), fact g1, fact g2, fact g3, fact g4, fact test_params_wf(1),
        fact test_params_wf(2), fact g5)
qed

section \<open>The request dispatcher\<close>

text \<open>
  C2, as the code has it: the dispatcher first sends the request as it was given, with
  no header added; a transport error of that send is returned. When the response is a
  401 whose \<open>WWW-Authenticate\<close> value is not empty, the challenge is parsed. If it
  parses, the request that \<^verbatim>\<open>http.NewRequest\<close> builds from the same method, URL and
  body bytes receives the headers of the original and the generated \<open>Authorization\<close>
  value, and is sent exactly once; the result of that send, success or failure, is the
  result. If it does not parse, or the new request cannot be built, an error is
  returned and nothing more is sent. Any other response is returned as it is.
\<close>

theorem executeHTTPRequest_handshake:
  "(Do req w = (Inl err, w1) \<longrightarrow>
      executeHTTPRequest NewRequest Do rnd c req w = (Inl err, c, w1)) \<and>
   (Do req w = (Inr resp, w1) \<and>
    (Response_StatusCode resp \<noteq> 401 \<or> Header_Get (Response_Header resp) ''Www-Authenticate'' = []) \<longrightarrow>
      executeHTTPRequest NewRequest Do rnd c req w = (Inr resp, c, w1)) \<and>
   (Do req w = (Inr resp, w1) \<and> Response_StatusCode resp = 401 \<and>
    Header_Get (Response_Header resp) ''Www-Authenticate'' \<noteq> [] \<and>
    ParseChallenge (digestAuth c) (Header_Get (Response_Header resp) ''Www-Authenticate'') rnd
      = (None, d) \<and>
    NewRequest (Method req) (URL_String (URL req)) (Body req) = Inr newReq \<longrightarrow>
      executeHTTPRequest NewRequest Do rnd c req w =
        (let authReq = newReq\<lparr>Header := (Header newReq ++ Header req)
               (''Authorization'' \<mapsto> [GenerateAuthHeader d (publicKey c) (privateKey c)
                                         (Method req) (URL_Path (URL req))])\<rparr>
         in (fst (Do authReq w1), c\<lparr>digestAuth := d\<rparr>, snd (Do authReq w1)))) \<and>
   (Do req w = (Inr resp, w1) \<and> Response_StatusCode resp = 401 \<and>
    Header_Get (Response_Header resp) ''Www-Authenticate'' \<noteq> [] \<and>
    ParseChallenge (digestAuth c) (Header_Get (Response_Header resp) ''Www-Authenticate'') rnd
      = (Some parseErr, d) \<longrightarrow>
      executeHTTPRequest NewRequest Do rnd c req w =
        (Inl (GenericError (''failed to parse auth challenge: '' @ Error parseErr)),
         c\<lparr>digestAuth := d\<rparr>, w1)) \<and>
   (Do req w = (Inr resp, w1) \<and> Response_StatusCode resp = 401 \<and>
    Header_Get (Response_Header resp) ''Www-Authenticate'' \<noteq> [] \<and>
    ParseChallenge (digestAuth c) (Header_Get (Response_Header resp) ''Www-Authenticate'') rnd
      = (None, d) \<and>
    NewRequest (Method req) (URL_String (URL req)) (Body req) = Inl newErr \<longrightarrow>
      executeHTTPRequest NewRequest Do rnd c req w =
        (Inl (GenericError (''failed to create auth request: '' @ Error newErr)),
         c\<lparr>digestAuth := d\<rparr>, w1))"
  by (auto simp: executeHTTPRequest_def Let_def Header_Set_def split: prod.splits)

lemma test_first_send:
  "server_digest test_request [] = (Inr challenge_401, [test_request])"
  by (simp add: server_digest_def test_request_def Header_Get_def)

lemma test_challenge_401:
  \<open>Response_StatusCode challenge_401 = 401\<close>
  \<open>Header_Get (Response_Header challenge_401) ''Www-Authenticate''
     = ''Digest realm="tidbcloud", nonce="test123", qop="auth"''\<close>
  by (simp_all add: challenge_401_def Header_Get_def)

lemma test_parse:
  \<open>ParseChallenge NewDigestAuth ''Digest realm="tidbcloud", nonce="test123", qop="auth"''
     ''0123456789abcdef'' = (None, test_after_challenge)\<close>
  by code_simp

lemma test_new_request:
  "test_NewRequest (Method test_request) (URL_String (URL test_request)) (Body test_request)
     = Inr \<lparr>Method = ''POST'', URL = test_url, Header = Map.empty, Body = Some ''{}''\<rparr>"
  by (simp add: test_NewRequest_def test_request_def)

lemma test_second_send:
  "server_digest test_auth_request [test_request]
     = (Inr ok_200, [test_request, test_auth_request])"
proof -
  have "nonce test_after_challenge \<noteq> []"
    by (simp add: test_after_challenge_def)
  then have "GenerateAuthHeader test_after_challenge ''test_public_key'' ''test_private_key''
      ''POST'' ''/api/v1beta/projects'' \<noteq> []"
    by (rule GenerateAuthHeader_nonempty)
  then show ?thesis
    by (simp add: server_digest_def test_auth_request_def Header_Get_def)
qed

theorem executeHTTPRequest_handshake_witness:
  \<open>server_digest test_request [] = (Inr challenge_401, [test_request]) \<and>
   Response_StatusCode challenge_401 = 401 \<and>
   Header_Get (Response_Header challenge_401) ''Www-Authenticate''
     = ''Digest realm="tidbcloud", nonce="test123", qop="auth"'' \<and>
   ParseChallenge (digestAuth test_client)
       (Header_Get (Response_Header challenge_401) ''Www-Authenticate'') ''0123456789abcdef''
     = (None, test_after_challenge) \<and>
   executeHTTPRequest test_NewRequest server_digest ''0123456789abcdef'' test_client test_request [] =
     (Inr ok_200, test_client\<lparr>digestAuth := test_after_challenge\<rparr>,
      [test_request, test_auth_request])\<close>
proof -
  have p: "ParseChallenge (digestAuth test_client)
       (Header_Get (Response_Header challenge_401) ''Www-Authenticate'') ''0123456789abcdef''
     = (None, test_after_challenge)"
    by (simp only: test_challenge_401 test_parse test_client_def Client.simps)
  have ne: "Header_Get (Response_Header challenge_401) ''Www-Authenticate'' \<noteq> []"
    by (simp only: test_challenge_401) simp
  have a: "(Header \<lparr>Method = ''POST'', URL = test_url, Header = Map.empty, Body = Some ''{}''\<rparr>
        ++ Header test_request)
      (''Authorization'' \<mapsto> [GenerateAuthHeader test_after_challenge (publicKey test_client)
          (privateKey test_client) (Method test_request) (URL_Path (URL test_request))])
      = Header test_auth_request"
    by (simp add: test_request_def test_auth_request_def test_client_def test_url_def)
  have r: "\<lparr>Method = ''POST'', URL = test_url, Header = Map.empty, Body = Some ''{}''\<rparr>
      \<lparr>Header := Header test_auth_request\<rparr> = test_auth_request"
    by (simp add: test_auth_request_def)
  note t = executeHTTPRequest_handshake [of server_digest test_request "[]" _ "[test_request]"
      test_NewRequest "''0123456789abcdef''" test_client challenge_401 test_after_challenge
      "\<lparr>Method = ''POST'', URL = test_url, Header = Map.empty, Body = Some ''{}''\<rparr>"]
  have "executeHTTPRequest test_NewRequest server_digest ''0123456789abcdef'' test_client test_request [] =
     (Inr ok_200, test_client\<lparr>digestAuth := test_after_challenge\<rparr>,
      [test_request, test_auth_request])"
    using t[THEN conjunct2, THEN conjunct2, THEN conjunct1] test_first_send test_challenge_401(1) ne p
      test_new_request
    by (simp only: Let_def a r test_second_send fst_conv snd_conv simp_thms)
  then show ?thesis
    using test_first_send test_challenge_401 p by (intro conjI)
qed

text \<open>
  C2 as it is written lets every 401 with a challenge header end in a second send.
  Against the second server the challenge does not parse: one request is sent, and
  the result is an error.
\<close>

theorem executeHTTPRequest_unparsed_challenge:
  \<open>server_basic test_request [] = (Inr basic_401, [test_request]) \<and>
   Response_StatusCode basic_401 = 401 \<and>
   Header_Get (Response_Header basic_401) ''Www-Authenticate'' = ''Basic realm="tidbcloud"'' \<and>
   executeHTTPRequest test_NewRequest server_basic ''0123456789abcdef'' test_client test_request [] =
     (Inl (GenericError ''failed to parse auth challenge: not a digest auth header''),
      test_client, [test_request])\<close>
proof -
  have s: "server_basic test_request [] = (Inr basic_401, [test_request])"
    by (simp add: server_basic_def)
  have h: \<open>Response_StatusCode basic_401 = 401\<close>
    \<open>Header_Get (Response_Header basic_401) ''Www-Authenticate'' = ''Basic realm="tidbcloud"''\<close>
    by (simp_all add: basic_401_def Header_Get_def)
  have p: \<open>ParseChallenge NewDigestAuth ''Basic realm="tidbcloud"'' ''0123456789abcdef''
      = (Some (GenericError ''not a digest auth header''), NewDigestAuth)\<close>
    by code_simp
  have c: "test_client\<lparr>digestAuth := NewDigestAuth\<rparr> = test_client"
    by (simp add: test_client_def)
  have "executeHTTPRequest test_NewRequest server_basic ''0123456789abcdef'' test_client test_request [] =
     (Inl (GenericError ''failed to parse auth challenge: not a digest auth header''),
      test_client, [test_request])"
    unfolding executeHTTPRequest_def s Let_def
    by (simp add: h p c test_client_def)
  with s h show ?thesis by (intro conjI)
qed

section \<open>The failure classifier\<close>

text \<open>
  C8: for a 429 response whose \<open>X-Ratelimit-Reset\<close> value is not empty and parses as a
  64-bit integer, the details of the classified error are the decoded details (none
  when the body does not decode) followed by the entry \<open>rate_limit_reset\<close> with the
  parsed value. \<open>IsRateLimitError\<close> holds exactly when the status is 429 and the code
  is 49900007; on a classified error these are the status of the response and the
  code of the decoded body.
\<close>

theorem parseAPIError_rate_limit:
  "(Response_StatusCode resp = 429 \<and>
    Header_Get (Response_Header resp) ''X-Ratelimit-Reset'' \<noteq> [] \<and>
    ParseInt (Header_Get (Response_Header resp) ''X-Ratelimit-Reset'') = Some resetTime \<longrightarrow>
      Details (parseAPIError Decode StatusText resp) =
        (case Decode (Response_Body resp) of
           Some errorResp \<Rightarrow> ErrorResponse_Details errorResp
         | None \<Rightarrow> [])
        @ [AnyMap [(''rate_limit_reset'', AnyInt64 resetTime)]]) \<and>
   (IsRateLimitError e \<longleftrightarrow> StatusCode e = 429 \<and> Code e = 49900007) \<and>
   (IsRateLimitError (parseAPIError Decode StatusText resp) \<longleftrightarrow>
      Response_StatusCode resp = 429 \<and>
      (\<exists>errorResp. Decode (Response_Body resp) = Some errorResp \<and>
         ErrorResponse_Code errorResp = Some 49900007))"
  by (auto simp: parseAPIError_def IsRateLimitError_def Let_def split: option.splits)

lemma ParseInt_reset: "ParseInt ''1700000000'' = Some 1700000000"
  by (simp add: ParseInt_def dec_value_def is_digit_def Let_def)

theorem parseAPIError_rate_limit_witness:
  "Response_StatusCode rate_limited_429 = 429 \<and>
   Header_Get (Response_Header rate_limited_429) ''X-Ratelimit-Reset'' = ''1700000000'' \<and>
   ParseInt ''1700000000'' = Some 1700000000 \<and>
   Details (parseAPIError test_Decode test_StatusText rate_limited_429) =
     [AnyMap [(''rate_limit_reset'', AnyInt64 1700000000)]] \<and>
   IsRateLimitError (parseAPIError test_Decode test_StatusText rate_limited_429)"
proof -
  have h: "Response_StatusCode rate_limited_429 = 429"
    "Header_Get (Response_Header rate_limited_429) ''X-Ratelimit-Reset'' = ''1700000000''"
    by (simp_all add: rate_limited_429_def Header_Get_def)
  have d: "test_Decode (Response_Body rate_limited_429) =
      Some \<lparr>ErrorResponse_Code = Some 49900007,
             ErrorResponse_Message = Some ''rate limit exceeded'', ErrorResponse_Details = []\<rparr>"
    by (simp add: test_Decode_def rate_limited_429_def)
  note t = parseAPIError_rate_limit [of rate_limited_429 1700000000 test_Decode test_StatusText]
  have g1: "Details (parseAPIError test_Decode test_StatusText rate_limited_429) =
     [AnyMap [(''rate_limit_reset'', AnyInt64 1700000000)]]"
    using t[THEN conjunct1] by (simp add: h d ParseInt_reset)
  have g2: "IsRateLimitError (parseAPIError test_Decode test_StatusText rate_limited_429)"
    using t[THEN conjunct2, THEN conjunct2] by (simp add: h d)
  show ?thesis
    by (intro conjI) (fact h(1), fact h(2), fact ParseInt_reset, fact g1, fact g2)
qed

end
